theory Spec2Isabelle
  imports Complex_Main
begin

section \<open>Python values\<close>

text \<open>
  The handlers of \<^verbatim>\<open>google_maps_mcp_server/handlers.py\<close> work on parsed JSON: numbers,
  strings, lists and dictionaries. A Python float is a finite value, an infinity or NaN;
  a finite float and an int are taken at their exact value, as Python's mixed comparisons
  do. A dictionary is an association list in insertion order, looked up with \<open>map_of\<close>.
\<close>

datatype pyfloat = Fin real | PosInf | NegInf | NaN

datatype pynum = PInt int | PFloat pyfloat

datatype json =
    JNull
  | JBool bool
  | JNum pynum
  | JStr string
  | JList "json list"
  | JDict "(string \<times> json) list"

text \<open>Exceptions (subclasses of \<^verbatim>\<open>Exception\<close>); each carries the text \<^verbatim>\<open>str(e)\<close>.
  \<open>OtherError\<close> is any other class, with its class name first.\<close>

datatype pyexn =
    ValueError string
  | KeyError string
  | IndexError string
  | TypeError string
  | AttributeError string
  | OtherError string string

fun str_exn :: "pyexn \<Rightarrow> string" where
  "str_exn (ValueError m) = m"
| "str_exn (KeyError m) = m"
| "str_exn (IndexError m) = m"
| "str_exn (TypeError m) = m"
| "str_exn (AttributeError m) = m"
| "str_exn (OtherError c m) = m"

fun float_le :: "pyfloat \<Rightarrow> pyfloat \<Rightarrow> bool" where
  "float_le NaN b = False"
| "float_le a NaN = False"
| "float_le NegInf b = True"
| "float_le a PosInf = True"
| "float_le (Fin x) (Fin y) = (x \<le> y)"
| "float_le a b = False"

fun num_value :: "pynum \<Rightarrow> pyfloat" where
  "num_value (PInt i) = Fin (of_int i)"
| "num_value (PFloat f) = f"

definition py_le :: "pynum \<Rightarrow> pynum \<Rightarrow> bool" where
  "py_le a b = float_le (num_value a) (num_value b)"

text \<open>Truth value of an object (\<^verbatim>\<open>if x:\<close>, \<^verbatim>\<open>not x\<close>).\<close>

fun truthy :: "json \<Rightarrow> bool" where
  "truthy JNull = False"
| "truthy (JBool b) = b"
| "truthy (JNum (PInt i)) = (i \<noteq> 0)"
| "truthy (JNum (PFloat (Fin x))) = (x \<noteq> 0)"
| "truthy (JNum (PFloat f)) = True"
| "truthy (JStr s) = (s \<noteq> [])"
| "truthy (JList xs) = (xs \<noteq> [])"
| "truthy (JDict kvs) = (kvs \<noteq> [])"

fun type_name :: "json \<Rightarrow> string" where
  "type_name JNull = ''NoneType''"
| "type_name (JBool b) = ''bool''"
| "type_name (JNum (PInt i)) = ''int''"
| "type_name (JNum (PFloat f)) = ''float''"
| "type_name (JStr s) = ''str''"
| "type_name (JList xs) = ''list''"
| "type_name (JDict kvs) = ''dict''"

text \<open>\<^verbatim>\<open>x[0]\<close>: the first element of a list or string, a key lookup in a dictionary
  (whose keys are strings here, so the key 0 is never found).\<close>

fun getitem_0 :: "json \<Rightarrow> pyexn + json" where
  "getitem_0 (JList []) = Inl (IndexError ''list index out of range'')"
| "getitem_0 (JList (x # xs)) = Inr x"
| "getitem_0 (JStr []) = Inl (IndexError ''string index out of range'')"
| "getitem_0 (JStr (c # cs)) = Inr (JStr [c])"
| "getitem_0 (JDict kvs) = Inl (KeyError ''0'')"
| "getitem_0 v = Inl (TypeError ([CHR 39] @ type_name v @ [CHR 39] @ '' object is not subscriptable''))"

text \<open>\<^verbatim>\<open>x["key"]\<close>.\<close>

fun getitem_str :: "json \<Rightarrow> string \<Rightarrow> pyexn + json" where
  "getitem_str (JDict kvs) k =
     (case map_of kvs k of
        None \<Rightarrow> Inl (KeyError ([CHR 39] @ k @ [CHR 39]))
      | Some v \<Rightarrow> Inr v)"
| "getitem_str (JList xs) k = Inl (TypeError ''list indices must be integers or slices, not str'')"
| "getitem_str (JStr s) k = Inl (TypeError (''string indices must be integers, not '' @ [CHR 39] @ ''str'' @ [CHR 39]))"
| "getitem_str v k = Inl (TypeError ([CHR 39] @ type_name v @ [CHR 39] @ '' object is not subscriptable''))"

text \<open>\<^verbatim>\<open>x.get(key, default)\<close>; \<^verbatim>\<open>x.get(key)\<close> is the call with default \<open>JNull\<close>.\<close>

fun py_get :: "json \<Rightarrow> string \<Rightarrow> json \<Rightarrow> pyexn + json" where
  "py_get (JDict kvs) k d = (case map_of kvs k of None \<Rightarrow> Inr d | Some v \<Rightarrow> Inr v)"
| "py_get v k d =
     Inl (AttributeError ([CHR 39] @ type_name v @ [CHR 39] @ '' object has no attribute '' @ [CHR 39] @ ''get'' @ [CHR 39]))"

text \<open>\<^verbatim>\<open>for x in v\<close>: the elements of a list, the keys of a dictionary, the characters
  of a string.\<close>

fun py_iter :: "json \<Rightarrow> pyexn + json list" where
  "py_iter (JList xs) = Inr xs"
| "py_iter (JDict kvs) = Inr (map (\<lambda>kv. JStr (fst kv)) kvs)"
| "py_iter (JStr s) = Inr (map (\<lambda>c. JStr [c]) s)"
| "py_iter v = Inl (TypeError ([CHR 39] @ type_name v @ [CHR 39] @ '' object is not iterable''))"

definition and_then :: "pyexn + 'a \<Rightarrow> ('a \<Rightarrow> pyexn + 'b) \<Rightarrow> pyexn + 'b" where
  "and_then r f = (case r of Inl e \<Rightarrow> Inl e | Inr v \<Rightarrow> f v)"

text \<open>The loop \<^verbatim>\<open>for x in xs: acc.append(f(x))\<close>, where \<open>f\<close> may raise.\<close>

fun append_each :: "(json \<Rightarrow> pyexn + json) \<Rightarrow> json list \<Rightarrow> json list \<Rightarrow> pyexn + json list" where
  "append_each f [] acc = Inr acc"
| "append_each f (x # xs) acc =
     (case f x of Inl e \<Rightarrow> Inl e | Inr y \<Rightarrow> append_each f xs (acc @ [y]))"

section \<open>The upstream client and the process state\<close>

datatype client = Client string

datatype kwarg = KwTuple "pynum \<times> pynum" | KwInt int

datatype upstream_call =
    Geocode string
  | Reverse_geocode "pynum \<times> pynum"
  | Places string "(string \<times> kwarg) list"
  | Place string "string list"
  | Distance_matrix "string list" "string list" string string
  | Elevation "(pynum \<times> pynum) list"
  | Directions string string string string

datatype event = Constructed string | Called client upstream_call

text \<open>
  What the module does not define: the value of the environment variable read at import,
  the constructor and the methods of \<^verbatim>\<open>googlemaps.Client\<close>, and Python's formatting of a
  number in an f-string.
\<close>

record env =
  GOOGLE_MAPS_API_KEY :: "string option"
  Client_init :: "string \<Rightarrow> pyexn + client"
  respond :: "client \<Rightarrow> upstream_call \<Rightarrow> pyexn + json"
  format_num :: "pynum \<Rightarrow> string"

text \<open>The global \<^verbatim>\<open>gmaps\<close>, and the log of every use of the upstream library.\<close>

record world =
  gmaps :: "client option"
  trace :: "event list"

definition get_gmaps_client :: "env \<Rightarrow> world \<Rightarrow> (pyexn + client) \<times> world" where
  "get_gmaps_client E w =
     (case gmaps w of
        Some c \<Rightarrow> (Inr c, w)
      | None \<Rightarrow>
          (case GOOGLE_MAPS_API_KEY E of
             None \<Rightarrow> (Inl (ValueError ''GOOGLE_MAPS_API_KEY environment variable is not set''), w)
           | Some key \<Rightarrow>
               if key = [] then (Inl (ValueError ''GOOGLE_MAPS_API_KEY environment variable is not set''), w)
               else
                 (case Client_init E key of
                    Inl e \<Rightarrow> (Inl e, w\<lparr>trace := trace w @ [Constructed key]\<rparr>)
                  | Inr c \<Rightarrow> (Inr c, w\<lparr>gmaps := Some c, trace := trace w @ [Constructed key]\<rparr>))))"

text \<open>A method call on the client: logged, answered by the upstream.\<close>

definition invoke :: "env \<Rightarrow> client \<Rightarrow> upstream_call \<Rightarrow> world \<Rightarrow> (pyexn + json) \<times> world" where
  "invoke E c call w = (respond E c call, w\<lparr>trace := trace w @ [Called c call]\<rparr>)"

text \<open>\<^verbatim>\<open>try: ... except Exception as e: raise ValueError(f"<prefix>{e}")\<close>.\<close>

definition try_except :: "string \<Rightarrow> (pyexn + json) \<times> world \<Rightarrow> (pyexn + json) \<times> world" where
  "try_except prefix r =
     (case fst r of
        Inl e \<Rightarrow> (Inl (ValueError (prefix @ str_exn e)), snd r)
      | Inr v \<Rightarrow> r)"

section \<open>Handlers\<close>

subsection \<open>maps_geocode\<close>

definition geocode_result :: "json \<Rightarrow> pyexn + json" where
  "geocode_result results =
     (if \<not> truthy results then Inl (ValueError ''No results found for the given address'')
      else
        and_then (getitem_0 results) (\<lambda>result.
        and_then (getitem_str result ''geometry'') (\<lambda>geometry.
        and_then (getitem_str geometry ''location'') (\<lambda>location.
        and_then (getitem_str result ''formatted_address'') (\<lambda>formatted_address.
        and_then (getitem_str result ''place_id'') (\<lambda>place_id.
        Inr (JDict [(''location'', location),
                    (''formatted_address'', formatted_address),
                    (''place_id'', place_id)])))))))"

definition maps_geocode :: "env \<Rightarrow> string \<Rightarrow> world \<Rightarrow> (pyexn + json) \<times> world" where
  "maps_geocode E address w =
     (if address = [] then (Inl (ValueError ''address parameter is required''), w)
      else
        try_except ''Geocoding error: ''
          (case get_gmaps_client E w of
             (Inl e, w1) \<Rightarrow> (Inl e, w1)
           | (Inr gmaps_client, w1) \<Rightarrow>
               (case invoke E gmaps_client (Geocode address) w1 of
                  (Inl e, w2) \<Rightarrow> (Inl e, w2)
                | (Inr results, w2) \<Rightarrow> (geocode_result results, w2))))"

subsection \<open>maps_reverse_geocode\<close>

definition reverse_geocode_result :: "json \<Rightarrow> pyexn + json" where
  "reverse_geocode_result results =
     (if \<not> truthy results then Inl (ValueError ''No results found for the given coordinates'')
      else
        and_then (getitem_0 results) (\<lambda>result.
        and_then (getitem_str result ''formatted_address'') (\<lambda>formatted_address.
        and_then (getitem_str result ''place_id'') (\<lambda>place_id.
        and_then (getitem_str result ''address_components'') (\<lambda>address_components.
        Inr (JDict [(''formatted_address'', formatted_address),
                    (''place_id'', place_id),
                    (''address_components'', address_components)]))))))"

text \<open>A parameter passed as \<^verbatim>\<open>None\<close> is the value \<open>None\<close> here.\<close>

definition maps_reverse_geocode ::
  "env \<Rightarrow> pynum option \<Rightarrow> pynum option \<Rightarrow> world \<Rightarrow> (pyexn + json) \<times> world" where
  "maps_reverse_geocode E latitude_arg longitude_arg w =
     (case (latitude_arg, longitude_arg) of
        (Some latitude, Some longitude) \<Rightarrow>
          if \<not> (py_le (PInt (- 90)) latitude \<and> py_le latitude (PInt 90))
            then (Inl (ValueError ''latitude must be between -90 and 90''), w)
          else if \<not> (py_le (PInt (- 180)) longitude \<and> py_le longitude (PInt 180))
            then (Inl (ValueError ''longitude must be between -180 and 180''), w)
          else
            try_except ''Reverse geocoding error: ''
              (case get_gmaps_client E w of
                 (Inl e, w1) \<Rightarrow> (Inl e, w1)
               | (Inr gmaps_client, w1) \<Rightarrow>
                   (case invoke E gmaps_client (Reverse_geocode (latitude, longitude)) w1 of
                      (Inl e, w2) \<Rightarrow> (Inl e, w2)
                    | (Inr results, w2) \<Rightarrow> (reverse_geocode_result results, w2)))
      | _ \<Rightarrow> (Inl (ValueError ''latitude and longitude parameters are required''), w))"

subsection \<open>maps_search_places\<close>

text \<open>The keyword arguments \<^verbatim>\<open>search_params\<close>: \<^verbatim>\<open>if location:\<close> is false for \<^verbatim>\<open>None\<close> and for
  an empty dictionary, \<^verbatim>\<open>if radius:\<close> is false for \<^verbatim>\<open>None\<close> and for 0.\<close>

definition search_params :: "(string \<times> pynum) list option \<Rightarrow> int option \<Rightarrow> pyexn + (string \<times> kwarg) list" where
  "search_params location radius =
     (case location of
        None \<Rightarrow> Inr []
      | Some loc \<Rightarrow>
          if loc = [] then Inr []
          else
            (case (map_of loc ''latitude'', map_of loc ''longitude'') of
               (Some lat, Some lng) \<Rightarrow>
                 (case radius of
                    None \<Rightarrow> Inr []
                  | Some r \<Rightarrow>
                      if r = 0 then Inr []
                      else Inr [(''location'', KwTuple (lat, lng)), (''radius'', KwInt r)])
             | _ \<Rightarrow> Inl (ValueError ''location must contain both latitude and longitude'')))"

definition place_entry :: "json \<Rightarrow> pyexn + json" where
  "place_entry place =
     and_then (py_get place ''name'' (JStr [])) (\<lambda>name.
     and_then (py_get place ''formatted_address'' (JStr [])) (\<lambda>formatted_address.
     and_then (py_get place ''geometry'' (JDict [])) (\<lambda>geometry.
     and_then (py_get geometry ''location'' (JDict [])) (\<lambda>location.
     and_then (py_get place ''place_id'' (JStr [])) (\<lambda>place_id.
     and_then (py_get place ''rating'' JNull) (\<lambda>rating.
     and_then (py_get place ''types'' (JList [])) (\<lambda>types.
     Inr (JDict [(''name'', name),
                 (''formatted_address'', formatted_address),
                 (''location'', location),
                 (''place_id'', place_id),
                 (''rating'', rating),
                 (''types'', types)]))))))))"

definition places_result :: "json \<Rightarrow> pyexn + json" where
  "places_result results =
     and_then (py_get results ''results'' (JList [])) (\<lambda>rs.
     and_then (py_iter rs) (\<lambda>items.
     and_then (append_each place_entry items []) (\<lambda>places.
     Inr (JDict [(''places'', JList places)]))))"

definition maps_search_places ::
  "env \<Rightarrow> string \<Rightarrow> (string \<times> pynum) list option \<Rightarrow> int option \<Rightarrow> world \<Rightarrow> (pyexn + json) \<times> world" where
  "maps_search_places E query location radius w =
     (if query = [] then (Inl (ValueError ''query parameter is required''), w)
      else if (case radius of None \<Rightarrow> False | Some r \<Rightarrow> r \<le> 0 \<or> r > 50000)
        then (Inl (ValueError ''radius must be between 1 and 50000 meters''), w)
      else
        try_except ''Places search error: ''
          (case get_gmaps_client E w of
             (Inl e, w1) \<Rightarrow> (Inl e, w1)
           | (Inr gmaps_client, w1) \<Rightarrow>
               (case search_params location radius of
                  Inl e \<Rightarrow> (Inl e, w1)
                | Inr params \<Rightarrow>
                    (case invoke E gmaps_client (Places query params) w1 of
                       (Inl e, w2) \<Rightarrow> (Inl e, w2)
                     | (Inr results, w2) \<Rightarrow> (places_result results, w2)))))"

subsection \<open>maps_place_details\<close>

definition review_entry :: "json \<Rightarrow> pyexn + json" where
  "review_entry review =
     and_then (py_get review ''author_name'' (JStr [])) (\<lambda>author_name.
     and_then (py_get review ''rating'' (JNum (PInt 0))) (\<lambda>rating.
     and_then (py_get review ''text'' (JStr [])) (\<lambda>text.
     and_then (py_get review ''time'' (JNum (PInt 0))) (\<lambda>time.
     Inr (JDict [(''author_name'', author_name),
                 (''rating'', rating),
                 (''text'', text),
                 (''time'', time)])))))"

definition place_details_result :: "json \<Rightarrow> pyexn + json" where
  "place_details_result result =
     and_then (py_get result ''result'' (JDict [])) (\<lambda>place_data.
     and_then (py_get place_data ''reviews'' (JList [])) (\<lambda>rs.
     and_then (py_iter rs) (\<lambda>items.
     and_then (append_each review_entry items []) (\<lambda>reviews.
     and_then (py_get place_data ''name'' (JStr [])) (\<lambda>name.
     and_then (py_get place_data ''formatted_address'' (JStr [])) (\<lambda>formatted_address.
     and_then (py_get place_data ''geometry'' (JDict [])) (\<lambda>geometry.
     and_then (py_get geometry ''location'' (JDict [])) (\<lambda>location.
     and_then (py_get place_data ''formatted_phone_number'' (JStr [])) (\<lambda>phone.
     and_then (py_get place_data ''website'' (JStr [])) (\<lambda>website.
     and_then (py_get place_data ''rating'' JNull) (\<lambda>rating.
     and_then (py_get place_data ''opening_hours'' (JDict [])) (\<lambda>opening_hours.
     Inr (JDict [(''name'', name),
                 (''formatted_address'', formatted_address),
                 (''location'', location),
                 (''formatted_phone_number'', phone),
                 (''website'', website),
                 (''rating'', rating),
                 (''reviews'', JList reviews),
                 (''opening_hours'', opening_hours)])))))))))))))"

definition place_fields :: "string list" where
  "place_fields =
     [''name'', ''formatted_address'', ''geometry'', ''formatted_phone_number'',
      ''website'', ''rating'', ''reviews'', ''opening_hours'']"

definition maps_place_details :: "env \<Rightarrow> string \<Rightarrow> world \<Rightarrow> (pyexn + json) \<times> world" where
  "maps_place_details E place_id w =
     (if place_id = [] then (Inl (ValueError ''place_id parameter is required''), w)
      else
        try_except ''Place details error: ''
          (case get_gmaps_client E w of
             (Inl e, w1) \<Rightarrow> (Inl e, w1)
           | (Inr gmaps_client, w1) \<Rightarrow>
               (case invoke E gmaps_client (Place place_id place_fields) w1 of
                  (Inl e, w2) \<Rightarrow> (Inl e, w2)
                | (Inr result, w2) \<Rightarrow> (place_details_result result, w2))))"

subsection \<open>maps_distance_matrix\<close>

definition valid_modes :: "string list" where
  "valid_modes = [''driving'', ''walking'', ''bicycling'', ''transit'']"

text \<open>\<^verbatim>\<open>f"mode must be one of: {', '.join(valid_modes)}"\<close>.\<close>

fun join :: "string \<Rightarrow> string list \<Rightarrow> string" where
  "join sep [] = []"
| "join sep [x] = x"
| "join sep (x # y # ys) = x @ sep @ join sep (y # ys)"

definition mode_error :: pyexn where
  "mode_error = ValueError (''mode must be one of: '' @ join '', '' valid_modes)"

text \<open>An omitted \<^verbatim>\<open>mode\<close> argument (\<open>None\<close> here) takes the default of the signature.\<close>

definition mode_or_default :: "string option \<Rightarrow> string" where
  "mode_or_default mode = (case mode of None \<Rightarrow> ''driving'' | Some m \<Rightarrow> m)"

definition element_entry :: "json \<Rightarrow> pyexn + json" where
  "element_entry element =
     and_then (py_get element ''status'' (JStr [])) (\<lambda>status.
     and_then (py_get element ''duration'' JNull) (\<lambda>duration.
     and_then (py_get element ''distance'' JNull) (\<lambda>distance.
     Inr (JDict [(''status'', status), (''duration'', duration), (''distance'', distance)]))))"

definition row_entry :: "json \<Rightarrow> pyexn + json" where
  "row_entry row =
     and_then (py_get row ''elements'' (JList [])) (\<lambda>es.
     and_then (py_iter es) (\<lambda>items.
     and_then (append_each element_entry items []) (\<lambda>elements.
     Inr (JDict [(''elements'', JList elements)]))))"

definition distance_matrix_result :: "json \<Rightarrow> pyexn + json" where
  "distance_matrix_result result =
     and_then (py_get result ''rows'' (JList [])) (\<lambda>rs.
     and_then (py_iter rs) (\<lambda>items.
     and_then (append_each row_entry items []) (\<lambda>results.
     and_then (py_get result ''origin_addresses'' (JList [])) (\<lambda>origin_addresses.
     and_then (py_get result ''destination_addresses'' (JList [])) (\<lambda>destination_addresses.
     Inr (JDict [(''origin_addresses'', origin_addresses),
                 (''destination_addresses'', destination_addresses),
                 (''results'', JList results)]))))))"

definition maps_distance_matrix ::
  "env \<Rightarrow> string list \<Rightarrow> string list \<Rightarrow> string option \<Rightarrow> world \<Rightarrow> (pyexn + json) \<times> world" where
  "maps_distance_matrix E origins destinations mode_arg w =
     (let mode = mode_or_default mode_arg in
      if origins = [] then (Inl (ValueError ''origins parameter is required and cannot be empty''), w)
      else if destinations = []
        then (Inl (ValueError ''destinations parameter is required and cannot be empty''), w)
      else if mode \<notin> set valid_modes then (Inl mode_error, w)
      else
        try_except ''Distance matrix error: ''
          (case get_gmaps_client E w of
             (Inl e, w1) \<Rightarrow> (Inl e, w1)
           | (Inr gmaps_client, w1) \<Rightarrow>
               (case invoke E gmaps_client (Distance_matrix origins destinations mode ''imperial'') w1 of
                  (Inl e, w2) \<Rightarrow> (Inl e, w2)
                | (Inr result, w2) \<Rightarrow> (distance_matrix_result result, w2))))"

subsection \<open>maps_elevation\<close>

text \<open>The validation loop: the first location that fails raises, the others are collected
  as pairs.\<close>

fun location_tuples ::
  "(pynum \<Rightarrow> string) \<Rightarrow> (string \<times> pynum) list list \<Rightarrow> (pynum \<times> pynum) list \<Rightarrow> pyexn + (pynum \<times> pynum) list" where
  "location_tuples fmt [] acc = Inr acc"
| "location_tuples fmt (loc # locs) acc =
     (case (map_of loc ''latitude'', map_of loc ''longitude'') of
        (Some lat, Some lng) \<Rightarrow>
          if \<not> (py_le (PInt (- 90)) lat \<and> py_le lat (PInt 90))
            then Inl (ValueError (''latitude '' @ fmt lat @ '' must be between -90 and 90''))
          else if \<not> (py_le (PInt (- 180)) lng \<and> py_le lng (PInt 180))
            then Inl (ValueError (''longitude '' @ fmt lng @ '' must be between -180 and 180''))
          else location_tuples fmt locs (acc @ [(lat, lng)])
      | _ \<Rightarrow> Inl (ValueError ''Each location must contain both latitude and longitude''))"

definition elevation_entry :: "json \<Rightarrow> pyexn + json" where
  "elevation_entry elevation_result =
     and_then (py_get elevation_result ''elevation'' (JNum (PInt 0))) (\<lambda>elevation.
     and_then (py_get elevation_result ''location'' (JDict [])) (\<lambda>location.
     and_then (py_get elevation_result ''resolution'' (JNum (PInt 0))) (\<lambda>resolution.
     Inr (JDict [(''elevation'', elevation), (''location'', location), (''resolution'', resolution)]))))"

definition elevation_result :: "json \<Rightarrow> pyexn + json" where
  "elevation_result result =
     and_then (py_iter result) (\<lambda>items.
     and_then (append_each elevation_entry items []) (\<lambda>results.
     Inr (JDict [(''results'', JList results)])))"

definition maps_elevation :: "env \<Rightarrow> (string \<times> pynum) list list \<Rightarrow> world \<Rightarrow> (pyexn + json) \<times> world" where
  "maps_elevation E locations w =
     (if locations = [] then (Inl (ValueError ''locations parameter is required and cannot be empty''), w)
      else
        (case location_tuples (format_num E) locations [] of
           Inl e \<Rightarrow> (Inl e, w)
         | Inr tuples \<Rightarrow>
             try_except ''Elevation error: ''
               (case get_gmaps_client E w of
                  (Inl e, w1) \<Rightarrow> (Inl e, w1)
                | (Inr gmaps_client, w1) \<Rightarrow>
                    (case invoke E gmaps_client (Elevation tuples) w1 of
                       (Inl e, w2) \<Rightarrow> (Inl e, w2)
                     | (Inr result, w2) \<Rightarrow> (elevation_result result, w2)))))"

subsection \<open>maps_directions\<close>

definition step_entry :: "json \<Rightarrow> pyexn + json" where
  "step_entry step =
     and_then (py_get step ''html_instructions'' (JStr [])) (\<lambda>instructions.
     and_then (py_get step ''distance'' JNull) (\<lambda>distance.
     and_then (py_get step ''duration'' JNull) (\<lambda>duration.
     and_then (py_get step ''travel_mode'' (JStr [])) (\<lambda>travel_mode.
     Inr (JDict [(''instructions'', instructions),
                 (''distance'', distance),
                 (''duration'', duration),
                 (''travel_mode'', travel_mode)])))))"

definition route_entry :: "json \<Rightarrow> pyexn + json" where
  "route_entry route =
     and_then (py_get route ''legs'' (JList [JDict []])) (\<lambda>legs.
     and_then (getitem_0 legs) (\<lambda>leg.
     and_then (py_get leg ''steps'' (JList [])) (\<lambda>ss.
     and_then (py_iter ss) (\<lambda>items.
     and_then (append_each step_entry items []) (\<lambda>steps.
     and_then (py_get route ''summary'' (JStr [])) (\<lambda>summary.
     and_then (py_get leg ''distance'' JNull) (\<lambda>distance.
     and_then (py_get leg ''duration'' JNull) (\<lambda>duration.
     Inr (JDict [(''summary'', summary),
                 (''distance'', distance),
                 (''duration'', duration),
                 (''steps'', JList steps)])))))))))"

definition directions_result :: "json \<Rightarrow> pyexn + json" where
  "directions_result result =
     and_then (py_iter result) (\<lambda>items.
     and_then (append_each route_entry items []) (\<lambda>routes.
     Inr (JDict [(''routes'', JList routes)])))"

definition maps_directions ::
  "env \<Rightarrow> string \<Rightarrow> string \<Rightarrow> string option \<Rightarrow> world \<Rightarrow> (pyexn + json) \<times> world" where
  "maps_directions E origin destination mode_arg w =
     (let mode = mode_or_default mode_arg in
      if origin = [] then (Inl (ValueError ''origin parameter is required''), w)
      else if destination = [] then (Inl (ValueError ''destination parameter is required''), w)
      else if mode \<notin> set valid_modes then (Inl mode_error, w)
      else
        try_except ''Directions error: ''
          (case get_gmaps_client E w of
             (Inl e, w1) \<Rightarrow> (Inl e, w1)
           | (Inr gmaps_client, w1) \<Rightarrow>
               (case invoke E gmaps_client (Directions origin destination mode ''imperial'') w1 of
                  (Inl e, w2) \<Rightarrow> (Inl e, w2)
                | (Inr result, w2) \<Rightarrow> (directions_result result, w2))))"

subsection \<open>TOOL_FUNCTIONS\<close>

text \<open>A call of one of the seven registered handlers, with its arguments.\<close>

datatype tool_call =
    Call_geocode string
  | Call_reverse_geocode "pynum option" "pynum option"
  | Call_search_places string "(string \<times> pynum) list option" "int option"
  | Call_place_details string
  | Call_distance_matrix "string list" "string list" "string option"
  | Call_elevation "(string \<times> pynum) list list"
  | Call_directions string string "string option"

fun tool_name :: "tool_call \<Rightarrow> string" where
  "tool_name (Call_geocode a) = ''maps_geocode''"
| "tool_name (Call_reverse_geocode lat lng) = ''maps_reverse_geocode''"
| "tool_name (Call_search_places q l r) = ''maps_search_places''"
| "tool_name (Call_place_details p) = ''maps_place_details''"
| "tool_name (Call_distance_matrix os ds m) = ''maps_distance_matrix''"
| "tool_name (Call_elevation ls) = ''maps_elevation''"
| "tool_name (Call_directions orig d m) = ''maps_directions''"

fun run_tool :: "env \<Rightarrow> tool_call \<Rightarrow> world \<Rightarrow> (pyexn + json) \<times> world" where
  "run_tool E (Call_geocode address) w = maps_geocode E address w"
| "run_tool E (Call_reverse_geocode latitude longitude) w = maps_reverse_geocode E latitude longitude w"
| "run_tool E (Call_search_places query location radius) w = maps_search_places E query location radius w"
| "run_tool E (Call_place_details place_id) w = maps_place_details E place_id w"
| "run_tool E (Call_distance_matrix origins destinations mode) w = maps_distance_matrix E origins destinations mode w"
| "run_tool E (Call_elevation locations) w = maps_elevation E locations w"
| "run_tool E (Call_directions origin destination mode) w = maps_directions E origin destination mode w"

section \<open>Notions of the specification\<close>

text \<open>A number is a real value of the closed interval from \<open>lo\<close> to \<open>hi\<close>.\<close>

definition in_range :: "int \<Rightarrow> int \<Rightarrow> pynum \<Rightarrow> bool" where
  "in_range lo hi n =
     (case n of
        PInt i \<Rightarrow> lo \<le> i \<and> i \<le> hi
      | PFloat (Fin x) \<Rightarrow> of_int lo \<le> x \<and> x \<le> of_int hi
      | PFloat _ \<Rightarrow> False)"

text \<open>A location holds both fields, each in its range; the pair it stands for; and the
  message its rejection carries.\<close>

definition valid_location :: "(string \<times> pynum) list \<Rightarrow> bool" where
  "valid_location loc =
     (case (map_of loc ''latitude'', map_of loc ''longitude'') of
        (Some lat, Some lng) \<Rightarrow> in_range (- 90) 90 lat \<and> in_range (- 180) 180 lng
      | _ \<Rightarrow> False)"

definition coordinates :: "(string \<times> pynum) list \<Rightarrow> pynum \<times> pynum" where
  "coordinates loc = (the (map_of loc ''latitude''), the (map_of loc ''longitude''))"

definition rejection_message :: "(pynum \<Rightarrow> string) \<Rightarrow> (string \<times> pynum) list \<Rightarrow> string" where
  "rejection_message fmt loc =
     (case (map_of loc ''latitude'', map_of loc ''longitude'') of
        (Some lat, Some lng) \<Rightarrow>
          if in_range (- 90) 90 lat
          then ''longitude '' @ fmt lng @ '' must be between -180 and 180''
          else ''latitude '' @ fmt lat @ '' must be between -90 and 90''
      | _ \<Rightarrow> ''Each location must contain both latitude and longitude'')"

text \<open>A text occurs in a message.\<close>

fun starts_with :: "string \<Rightarrow> string \<Rightarrow> bool" where
  "starts_with s [] = True"
| "starts_with [] (c # cs) = False"
| "starts_with (d # ds) (c # cs) = (d = c \<and> starts_with ds cs)"

fun mentions :: "string \<Rightarrow> string \<Rightarrow> bool" where
  "mentions [] t = (t = [])"
| "mentions (c # cs) t = (starts_with (c # cs) t \<or> mentions cs t)"

text \<open>The bias-by-location filter of a places search: both parameters or none.\<close>

definition location_bias :: "(string \<times> pynum) list option \<Rightarrow> int option \<Rightarrow> (string \<times> kwarg) list" where
  "location_bias location radius =
     (case (location, radius) of
        (Some loc, Some r) \<Rightarrow> [(''location'', KwTuple (coordinates loc)), (''radius'', KwInt r)]
      | _ \<Rightarrow> [])"

text \<open>Successive invocations of the client accessor in one process: the results in order,
  and the state after the last.\<close>

fun get_gmaps_client_times :: "nat \<Rightarrow> env \<Rightarrow> world \<Rightarrow> (pyexn + client) list \<times> world" where
  "get_gmaps_client_times 0 E w = ([], w)"
| "get_gmaps_client_times (Suc n) E w =
     (case get_gmaps_client E w of
        (r, w1) \<Rightarrow> (case get_gmaps_client_times n E w1 of (rs, w2) \<Rightarrow> (r # rs, w2)))"

text \<open>The projection of a directions response, as the specification words it: a route
  becomes its summary with the distance, the duration and the steps of its first leg, and a
  step becomes its instructions, distance, duration and travel mode. A field that the
  upstream omits takes the handler's default.\<close>

definition field :: "(string \<times> json) list \<Rightarrow> string \<Rightarrow> json \<Rightarrow> json" where
  "field d k dflt = (case map_of d k of None \<Rightarrow> dflt | Some v \<Rightarrow> v)"

fun is_dict :: "json \<Rightarrow> bool" where
  "is_dict (JDict kvs) = True"
| "is_dict v = False"

fun projected_step :: "json \<Rightarrow> json" where
  "projected_step (JDict st) =
     JDict [(''instructions'', field st ''html_instructions'' (JStr [])),
            (''distance'', field st ''distance'' JNull),
            (''duration'', field st ''duration'' JNull),
            (''travel_mode'', field st ''travel_mode'' (JStr []))]"
| "projected_step v = JNull"

fun first_leg :: "json \<Rightarrow> (string \<times> json) list option" where
  "first_leg (JDict r) =
     (case map_of r ''legs'' of
        Some (JList (JDict leg # rest)) \<Rightarrow> Some leg
      | _ \<Rightarrow> None)"
| "first_leg v = None"

definition leg_steps :: "(string \<times> json) list \<Rightarrow> json list option" where
  "leg_steps leg =
     (case map_of leg ''steps'' of
        None \<Rightarrow> Some []
      | Some (JList ss) \<Rightarrow> Some ss
      | Some _ \<Rightarrow> None)"

definition well_formed_route :: "json \<Rightarrow> bool" where
  "well_formed_route route =
     (case first_leg route of
        None \<Rightarrow> False
      | Some leg \<Rightarrow> (case leg_steps leg of None \<Rightarrow> False | Some ss \<Rightarrow> list_all is_dict ss))"

fun summary_of :: "json \<Rightarrow> json" where
  "summary_of (JDict r) = field r ''summary'' (JStr [])"
| "summary_of v = JNull"

definition projected_route :: "json \<Rightarrow> json" where
  "projected_route route =
     (case first_leg route of
        None \<Rightarrow> JNull
      | Some leg \<Rightarrow>
          JDict [(''summary'', summary_of route),
                 (''distance'', field leg ''distance'' JNull),
                 (''duration'', field leg ''duration'' JNull),
                 (''steps'', JList (map projected_step
                    (case leg_steps leg of None \<Rightarrow> [] | Some ss \<Rightarrow> ss)))])"

text \<open>A directions response of one route with two legs.\<close>

definition two_leg_route :: json where
  "two_leg_route =
     JDict [(''summary'', JStr ''A1''),
            (''legs'', JList
               [JDict [(''distance'', JStr ''10 mi''),
                       (''duration'', JStr ''20 mins''),
                       (''steps'', JList
                          [JDict [(''html_instructions'', JStr ''<b>Head</b> north''),
                                  (''distance'', JStr ''1 mi''),
                                  (''travel_mode'', JStr ''DRIVING'')]])],
                JDict [(''distance'', JStr ''99 mi''), (''steps'', JList [])]])]"

text \<open>The same call repeated in one process: the results in order, and the state after the
  last.\<close>

fun run_tool_times :: "nat \<Rightarrow> env \<Rightarrow> tool_call \<Rightarrow> world \<Rightarrow> (pyexn + json) list \<times> world" where
  "run_tool_times 0 E call w = ([], w)"
| "run_tool_times (Suc n) E call w =
     (case run_tool E call w of
        (r, w1) \<Rightarrow> (case run_tool_times n E call w1 of (rs, w2) \<Rightarrow> (r # rs, w2)))"

text \<open>A fixture: a key is set, the constructor succeeds, the upstream answers every call
  with an empty list, and numbers are formatted from a small table.\<close>

definition fixture_env :: env where
  "fixture_env =
     \<lparr>GOOGLE_MAPS_API_KEY = Some ''key'',
      Client_init = (\<lambda>k. Inr (Client k)),
      respond = (\<lambda>c call. Inr (JList [])),
      format_num = (\<lambda>n. if n = PInt 91 then ''91'' else if n = PInt 200 then ''200'' else ''0'')\<rparr>"

definition fresh :: world where
  "fresh = \<lparr>gmaps = None, trace = []\<rparr>"

section \<open>Properties\<close>

lemma py_le_in_range: "(py_le (PInt lo) n \<and> py_le n (PInt hi)) = in_range lo hi n"
proof (cases n)
  case (PInt i)
  then show ?thesis by (simp add: py_le_def in_range_def)
next
  case (PFloat f)
  then show ?thesis by (cases f) (simp_all add: py_le_def in_range_def)
qed

text \<open>
  C1. A latitude outside [-90, 90] (NaN and the infinities included) or a longitude outside
  [-180, 180] makes \<^verbatim>\<open>maps_reverse_geocode\<close> raise the validation \<^verbatim>\<open>ValueError\<close> with the
  process state untouched: no client is built and no upstream call is logged; so does a
  parameter that is \<^verbatim>\<open>None\<close>. For a pair in range the checks pass and the handler goes on to
  the client accessor; with a client in hand, the reverse-geocoding call for exactly that
  pair is made.
\<close>

theorem reverse_geocode_range_validation:
  "(\<not> in_range (- 90) 90 latitude \<longrightarrow>
      maps_reverse_geocode E (Some latitude) (Some longitude) w =
        (Inl (ValueError ''latitude must be between -90 and 90''), w))
   \<and> (in_range (- 90) 90 latitude \<and> \<not> in_range (- 180) 180 longitude \<longrightarrow>
      maps_reverse_geocode E (Some latitude) (Some longitude) w =
        (Inl (ValueError ''longitude must be between -180 and 180''), w))
   \<and> (in_range (- 90) 90 latitude \<and> in_range (- 180) 180 longitude \<longrightarrow>
        (case get_gmaps_client E w of
           (Inl e, w1) \<Rightarrow>
             maps_reverse_geocode E (Some latitude) (Some longitude) w =
               (Inl (ValueError (''Reverse geocoding error: '' @ str_exn e)), w1)
         | (Inr c, w1) \<Rightarrow>
             snd (maps_reverse_geocode E (Some latitude) (Some longitude) w) =
               w1\<lparr>trace := trace w1 @ [Called c (Reverse_geocode (latitude, longitude))]\<rparr>))
   \<and> maps_reverse_geocode E None longitude_arg w =
        (Inl (ValueError ''latitude and longitude parameters are required''), w)
   \<and> maps_reverse_geocode E latitude_arg None w =
        (Inl (ValueError ''latitude and longitude parameters are required''), w)"
  by (auto simp: maps_reverse_geocode_def py_le_in_range try_except_def invoke_def
           split: prod.splits sum.splits option.splits)

theorem reverse_geocode_range_validation_witness:
  "maps_reverse_geocode fixture_env (Some (PInt 91)) (Some (PInt 0)) fresh =
     (Inl (ValueError ''latitude must be between -90 and 90''), fresh)
   \<and> maps_reverse_geocode fixture_env (Some (PInt 0)) (Some (PFloat (Fin 180.5))) fresh =
     (Inl (ValueError ''longitude must be between -180 and 180''), fresh)
   \<and> maps_reverse_geocode fixture_env (Some (PFloat NaN)) (Some (PInt 0)) fresh =
     (Inl (ValueError ''latitude must be between -90 and 90''), fresh)
   \<and> snd (maps_reverse_geocode fixture_env (Some (PFloat (Fin 48.5))) (Some (PInt 2)) fresh) =
       \<lparr>gmaps = Some (Client ''key''),
        trace = [Constructed ''key'',
                 Called (Client ''key'') (Reverse_geocode (PFloat (Fin 48.5), PInt 2))]\<rparr>"
  using reverse_geocode_range_validation [of "PInt 91" fixture_env "PInt 0" fresh]
        reverse_geocode_range_validation [of "PInt 0" fixture_env "PFloat (Fin 180.5)" fresh]
        reverse_geocode_range_validation [of "PFloat NaN" fixture_env "PInt 0" fresh]
        reverse_geocode_range_validation [of "PFloat (Fin 48.5)" fixture_env "PInt 2" fresh]
  by (simp add: in_range_def get_gmaps_client_def fixture_env_def fresh_def)

lemma location_tuples_valid:
  "\<forall>l\<in>set locs. valid_location l \<Longrightarrow>
     location_tuples fmt locs acc = Inr (acc @ map coordinates locs)"
proof (induction locs arbitrary: acc)
  case Nil
  then show ?case by simp
next
  case (Cons loc locs)
  from Cons.prems have "valid_location loc" by simp
  then obtain lat lng where
    "map_of loc ''latitude'' = Some lat" "map_of loc ''longitude'' = Some lng"
    "in_range (- 90) 90 lat" "in_range (- 180) 180 lng"
    by (auto simp: valid_location_def split: option.splits)
  with Cons show ?case
    by (simp add: py_le_in_range coordinates_def)
qed

lemma location_tuples_invalid:
  "\<forall>l\<in>set pre. valid_location l \<Longrightarrow> \<not> valid_location loc \<Longrightarrow>
     location_tuples fmt (pre @ loc # post) acc = Inl (ValueError (rejection_message fmt loc))"
proof (induction pre arbitrary: acc)
  case Nil
  then show ?case
    by (auto simp: valid_location_def rejection_message_def py_le_in_range split: option.splits)
next
  case (Cons l pre)
  from Cons.prems have "valid_location l" by simp
  then obtain lat lng where
    "map_of l ''latitude'' = Some lat" "map_of l ''longitude'' = Some lng"
    "in_range (- 90) 90 lat" "in_range (- 180) 180 lng"
    by (auto simp: valid_location_def split: option.splits)
  with Cons show ?case
    by (simp add: py_le_in_range)
qed

text \<open>
  C2 (as amended). \<^verbatim>\<open>maps_elevation\<close> validates every location before it asks for the client:
  the first location that lacks a field or holds a value out of range aborts the request with
  a \<^verbatim>\<open>ValueError\<close> and the process state untouched (no client built, no upstream call). For
  a value out of range the message holds the formatted value; for a missing field it is the
  fixed text of \<open>rejection_message\<close>. When every location is valid, the one upstream call
  carries all the pairs, in order.
\<close>

theorem elevation_validation:
  "((\<forall>l\<in>set pre. valid_location l) \<and> \<not> valid_location loc \<longrightarrow>
      maps_elevation E (pre @ loc # post) w =
        (Inl (ValueError (rejection_message (format_num E) loc)), w))
   \<and> (locations \<noteq> [] \<and> (\<forall>l\<in>set locations. valid_location l) \<longrightarrow>
        (case get_gmaps_client E w of
           (Inl e, w1) \<Rightarrow>
             maps_elevation E locations w =
               (Inl (ValueError (''Elevation error: '' @ str_exn e)), w1)
         | (Inr c, w1) \<Rightarrow>
             snd (maps_elevation E locations w) =
               w1\<lparr>trace := trace w1 @ [Called c (Elevation (map coordinates locations))]\<rparr>))"
proof (intro conjI impI)
  assume "(\<forall>l\<in>set pre. valid_location l) \<and> \<not> valid_location loc"
  then have "location_tuples (format_num E) (pre @ loc # post) [] =
      Inl (ValueError (rejection_message (format_num E) loc))"
    by (simp add: location_tuples_invalid)
  then show "maps_elevation E (pre @ loc # post) w =
        (Inl (ValueError (rejection_message (format_num E) loc)), w)"
    by (simp add: maps_elevation_def)
next
  assume a: "locations \<noteq> [] \<and> (\<forall>l\<in>set locations. valid_location l)"
  then have "location_tuples (format_num E) locations [] = Inr (map coordinates locations)"
    by (simp add: location_tuples_valid)
  with a show "case get_gmaps_client E w of
           (Inl e, w1) \<Rightarrow>
             maps_elevation E locations w =
               (Inl (ValueError (''Elevation error: '' @ str_exn e)), w1)
         | (Inr c, w1) \<Rightarrow>
             snd (maps_elevation E locations w) =
               w1\<lparr>trace := trace w1 @ [Called c (Elevation (map coordinates locations))]\<rparr>"
    by (auto simp: maps_elevation_def try_except_def invoke_def split: prod.splits sum.splits)
qed

theorem elevation_validation_witness:
  "maps_elevation fixture_env
      [[(''latitude'', PInt 10), (''longitude'', PInt 20)],
       [(''latitude'', PInt 91), (''longitude'', PInt 20)],
       [(''latitude'', PInt 0)]] fresh =
     (Inl (ValueError ''latitude 91 must be between -90 and 90''), fresh)
   \<and> snd (maps_elevation fixture_env
      [[(''latitude'', PInt 10), (''longitude'', PInt 20)]] fresh) =
       \<lparr>gmaps = Some (Client ''key''),
        trace = [Constructed ''key'', Called (Client ''key'') (Elevation [(PInt 10, PInt 20)])]\<rparr>"
  using elevation_validation [of "[[(''latitude'', PInt 10), (''longitude'', PInt 20)]]"
          "[(''latitude'', PInt 91), (''longitude'', PInt 20)]" fixture_env
          "[[(''latitude'', PInt 0)]]" fresh "[[(''latitude'', PInt 10), (''longitude'', PInt 20)]]"]
  by (simp add: valid_location_def in_range_def rejection_message_def coordinates_def
        get_gmaps_client_def fixture_env_def fresh_def)

text \<open>
  C2 as stated fails for a missing field: the location below holds the latitude 91 and no
  longitude, and the message names no value; another offending location gets the same text.
\<close>

theorem elevation_missing_field_counterexample:
  "maps_elevation fixture_env [[(''latitude'', PInt 91)]] fresh =
     (Inl (ValueError ''Each location must contain both latitude and longitude''), fresh)
   \<and> \<not> mentions ''Each location must contain both latitude and longitude''
         (format_num fixture_env (PInt 91))
   \<and> maps_elevation fixture_env [[(''longitude'', PInt 200)]] fresh =
     (Inl (ValueError ''Each location must contain both latitude and longitude''), fresh)"
  by (simp add: maps_elevation_def fixture_env_def)

text \<open>
  What \<^verbatim>\<open>maps_search_places\<close> does in a call that passes validation with a location that
  holds both fields (or no location): the upstream places call carries the location and
  radius parameters exactly when both were supplied, and no parameter otherwise. A location
  without a radius, or a radius without a location, is not rejected: the whole call then
  behaves as the call with neither.
\<close>

lemma search_places_location_bias:
  assumes "query \<noteq> []"
    and "case radius of None \<Rightarrow> True | Some r \<Rightarrow> 0 < r \<and> r \<le> 50000"
    and "case location of None \<Rightarrow> True
         | Some loc \<Rightarrow> map_of loc ''latitude'' \<noteq> None \<and> map_of loc ''longitude'' \<noteq> None"
  shows "(\<forall>c w1. get_gmaps_client E w = (Inr c, w1) \<longrightarrow>
            trace (snd (maps_search_places E query location radius w)) =
              trace w1 @ [Called c (Places query (location_bias location radius))])
         \<and> (location_bias location radius \<noteq> []) = (location \<noteq> None \<and> radius \<noteq> None)
         \<and> (location = None \<or> radius = None \<longrightarrow>
              maps_search_places E query location radius w =
                maps_search_places E query None None w)"
proof -
  have sp: "search_params location radius = Inr (location_bias location radius)"
    using assms(2,3)
    by (auto simp: search_params_def location_bias_def coordinates_def split: option.splits)
  have sp0: "search_params None None = Inr []"
    by (simp add: search_params_def)
  have ok: "\<not> (case radius of None \<Rightarrow> False | Some r \<Rightarrow> r \<le> 0 \<or> r > 50000)"
    using assms(2) by (auto split: option.splits)
  have body: "maps_search_places E query location radius w =
      try_except ''Places search error: ''
        (case get_gmaps_client E w of
           (Inl e, w1) \<Rightarrow> (Inl e, w1)
         | (Inr gmaps_client, w1) \<Rightarrow>
             (case invoke E gmaps_client (Places query (location_bias location radius)) w1 of
                (Inl e, w2) \<Rightarrow> (Inl e, w2)
              | (Inr results, w2) \<Rightarrow> (places_result results, w2)))"
    using assms(1) ok by (simp add: maps_search_places_def sp split: prod.splits sum.splits)
  have body0: "maps_search_places E query None None w =
      try_except ''Places search error: ''
        (case get_gmaps_client E w of
           (Inl e, w1) \<Rightarrow> (Inl e, w1)
         | (Inr gmaps_client, w1) \<Rightarrow>
             (case invoke E gmaps_client (Places query []) w1 of
                (Inl e, w2) \<Rightarrow> (Inl e, w2)
              | (Inr results, w2) \<Rightarrow> (places_result results, w2)))"
    using assms(1) by (simp add: maps_search_places_def sp0 split: prod.splits sum.splits)
  have one: "\<forall>c w1. get_gmaps_client E w = (Inr c, w1) \<longrightarrow>
            trace (snd (maps_search_places E query location radius w)) =
              trace w1 @ [Called c (Places query (location_bias location radius))]"
    unfolding body by (auto simp: try_except_def invoke_def split: sum.splits)
  have two: "(location_bias location radius \<noteq> []) = (location \<noteq> None \<and> radius \<noteq> None)"
    by (simp add: location_bias_def split: option.splits)
  have three: "location = None \<or> radius = None \<longrightarrow>
              maps_search_places E query location radius w =
                maps_search_places E query None None w"
    unfolding body body0 by (auto simp: location_bias_def split: option.splits prod.splits sum.splits)
  from one two three show ?thesis by blast
qed

lemma search_places_location_bias_example:
  "trace (snd (maps_search_places fixture_env ''pizza''
        (Some [(''latitude'', PInt 10), (''longitude'', PInt 20)]) (Some 500) fresh)) =
     [Constructed ''key'',
      Called (Client ''key'')
        (Places ''pizza'' [(''location'', KwTuple (PInt 10, PInt 20)), (''radius'', KwInt 500)])]
   \<and> maps_search_places fixture_env ''pizza''
        (Some [(''latitude'', PInt 10), (''longitude'', PInt 20)]) None fresh =
       maps_search_places fixture_env ''pizza'' None None fresh
   \<and> maps_search_places fixture_env ''pizza'' None (Some 500) fresh =
       maps_search_places fixture_env ''pizza'' None None fresh
   \<and> trace (snd (maps_search_places fixture_env ''pizza'' None None fresh)) =
       [Constructed ''key'', Called (Client ''key'') (Places ''pizza'' [])]"
  using search_places_location_bias [of "''pizza''" "Some 500"
          "Some [(''latitude'', PInt 10), (''longitude'', PInt 20)]" fixture_env fresh]
        search_places_location_bias [of "''pizza''" None
          "Some [(''latitude'', PInt 10), (''longitude'', PInt 20)]" fixture_env fresh]
        search_places_location_bias [of "''pizza''" "Some 500" None fixture_env fresh]
        search_places_location_bias [of "''pizza''" None None fixture_env fresh]
  by (simp add: location_bias_def coordinates_def get_gmaps_client_def fixture_env_def fresh_def)

text \<open>
  C3. The claim has the location and radius parameters passed to the upstream whenever both
  are supplied. An empty dictionary given as the location, together with a radius in range,
  passes the handler's checks (\<^verbatim>\<open>if location:\<close> is false for it): both are supplied, yet the
  upstream places call carries no parameter and the call behaves as the one with neither.
\<close>

theorem search_places_empty_location_no_bias:
  "maps_search_places
      (fixture_env\<lparr>respond := (\<lambda>c call. Inr (JDict [(''results'', JList [])]))\<rparr>)
      ''pizza'' (Some []) (Some 500) fresh =
     (Inr (JDict [(''places'', JList [])]),
      \<lparr>gmaps = Some (Client ''key''),
       trace = [Constructed ''key'', Called (Client ''key'') (Places ''pizza'' [])]\<rparr>)
   \<and> maps_search_places
      (fixture_env\<lparr>respond := (\<lambda>c call. Inr (JDict [(''results'', JList [])]))\<rparr>)
      ''pizza'' (Some []) (Some 500) fresh =
     maps_search_places
      (fixture_env\<lparr>respond := (\<lambda>c call. Inr (JDict [(''results'', JList [])]))\<rparr>)
      ''pizza'' None None fresh"
  by (simp add: maps_search_places_def search_params_def get_gmaps_client_def fixture_env_def
        fresh_def try_except_def invoke_def places_result_def and_then_def)

lemma mode_error_text:
  "mode_error = ValueError ''mode must be one of: driving, walking, bicycling, transit''"
  by (simp add: mode_error_def valid_modes_def)

text \<open>
  C4. A \<^verbatim>\<open>mode\<close> outside driving, walking, bicycling and transit makes
  \<^verbatim>\<open>maps_distance_matrix\<close> and \<^verbatim>\<open>maps_directions\<close> raise a validation \<^verbatim>\<open>ValueError\<close> with the
  process state untouched (no client, no upstream call); once the other arguments are
  present, it is the error that lists the four modes. The mode is passed on as given, and an
  omitted mode is the mode driving.
\<close>

theorem mode_validation:
  "(m \<notin> {''driving'', ''walking'', ''bicycling'', ''transit''} \<longrightarrow>
      (\<exists>msg. maps_distance_matrix E origins destinations (Some m) w = (Inl (ValueError msg), w))
      \<and> (\<exists>msg. maps_directions E origin destination (Some m) w = (Inl (ValueError msg), w))
      \<and> (origins \<noteq> [] \<and> destinations \<noteq> [] \<longrightarrow>
           maps_distance_matrix E origins destinations (Some m) w =
             (Inl (ValueError ''mode must be one of: driving, walking, bicycling, transit''), w))
      \<and> (origin \<noteq> [] \<and> destination \<noteq> [] \<longrightarrow>
           maps_directions E origin destination (Some m) w =
             (Inl (ValueError ''mode must be one of: driving, walking, bicycling, transit''), w)))
   \<and> maps_distance_matrix E origins destinations None w =
       maps_distance_matrix E origins destinations (Some ''driving'') w
   \<and> maps_directions E origin destination None w =
       maps_directions E origin destination (Some ''driving'') w
   \<and> (\<forall>c w1. origins \<noteq> [] \<and> destinations \<noteq> [] \<and> get_gmaps_client E w = (Inr c, w1) \<longrightarrow>
         trace (snd (maps_distance_matrix E origins destinations None w)) =
           trace w1 @ [Called c (Distance_matrix origins destinations ''driving'' ''imperial'')])
   \<and> (\<forall>c w1. origin \<noteq> [] \<and> destination \<noteq> [] \<and> get_gmaps_client E w = (Inr c, w1) \<longrightarrow>
         trace (snd (maps_directions E origin destination None w)) =
           trace w1 @ [Called c (Directions origin destination ''driving'' ''imperial'')])"
proof -
  have driving: "''driving'' \<in> set valid_modes"
    by (simp add: valid_modes_def)
  have bad: "m \<notin> set valid_modes"
    if "m \<notin> {''driving'', ''walking'', ''bicycling'', ''transit''}"
    using that by (simp add: valid_modes_def)
  have a: "\<exists>msg. maps_distance_matrix E origins destinations (Some m) w = (Inl (ValueError msg), w)"
    if "m \<notin> {''driving'', ''walking'', ''bicycling'', ''transit''}"
    using bad [OF that]
    by (simp add: maps_distance_matrix_def mode_or_default_def mode_error_text)
  have b: "\<exists>msg. maps_directions E origin destination (Some m) w = (Inl (ValueError msg), w)"
    if "m \<notin> {''driving'', ''walking'', ''bicycling'', ''transit''}"
    using bad [OF that]
    by (simp add: maps_directions_def mode_or_default_def mode_error_text)
  have c: "maps_distance_matrix E origins destinations (Some m) w =
             (Inl (ValueError ''mode must be one of: driving, walking, bicycling, transit''), w)"
    if "m \<notin> {''driving'', ''walking'', ''bicycling'', ''transit''}" "origins \<noteq> [] \<and> destinations \<noteq> []"
    using bad [OF that(1)] that(2)
    by (simp add: maps_distance_matrix_def mode_or_default_def mode_error_text)
  have d: "maps_directions E origin destination (Some m) w =
             (Inl (ValueError ''mode must be one of: driving, walking, bicycling, transit''), w)"
    if "m \<notin> {''driving'', ''walking'', ''bicycling'', ''transit''}" "origin \<noteq> [] \<and> destination \<noteq> []"
    using bad [OF that(1)] that(2)
    by (simp add: maps_directions_def mode_or_default_def mode_error_text)
  have e: "maps_distance_matrix E origins destinations None w =
       maps_distance_matrix E origins destinations (Some ''driving'') w"
    by (simp add: maps_distance_matrix_def mode_or_default_def)
  have f: "maps_directions E origin destination None w =
       maps_directions E origin destination (Some ''driving'') w"
    by (simp add: maps_directions_def mode_or_default_def)
  have g: "trace (snd (maps_distance_matrix E origins destinations None w)) =
           trace w1 @ [Called c (Distance_matrix origins destinations ''driving'' ''imperial'')]"
    if "origins \<noteq> [] \<and> destinations \<noteq> [] \<and> get_gmaps_client E w = (Inr c, w1)" for c w1
    using that driving
    by (auto simp: maps_distance_matrix_def mode_or_default_def try_except_def invoke_def Let_def
          split: sum.splits)
  have h: "trace (snd (maps_directions E origin destination None w)) =
           trace w1 @ [Called c (Directions origin destination ''driving'' ''imperial'')]"
    if "origin \<noteq> [] \<and> destination \<noteq> [] \<and> get_gmaps_client E w = (Inr c, w1)" for c w1
    using that driving
    by (auto simp: maps_directions_def mode_or_default_def try_except_def invoke_def Let_def
          split: sum.splits)
  show ?thesis
    using a b c d e f g h by (intro conjI impI allI) blast+
qed

theorem mode_validation_witness:
  "maps_distance_matrix fixture_env [''Paris''] [''Lyon''] (Some ''flying'') fresh =
     (Inl (ValueError ''mode must be one of: driving, walking, bicycling, transit''), fresh)
   \<and> maps_directions fixture_env ''Paris'' ''Lyon'' (Some ''Driving'') fresh =
     (Inl (ValueError ''mode must be one of: driving, walking, bicycling, transit''), fresh)
   \<and> trace (snd (maps_distance_matrix fixture_env [''Paris''] [''Lyon''] None fresh)) =
       [Constructed ''key'',
        Called (Client ''key'') (Distance_matrix [''Paris''] [''Lyon''] ''driving'' ''imperial'')]
   \<and> trace (snd (maps_directions fixture_env ''Paris'' ''Lyon'' None fresh)) =
       [Constructed ''key'',
        Called (Client ''key'') (Directions ''Paris'' ''Lyon'' ''driving'' ''imperial'')]"
  using mode_validation [of "''flying''" fixture_env "[''Paris'']" "[''Lyon'']" fresh "''Paris''" "''Lyon''"]
        mode_validation [of "''Driving''" fixture_env "[''Paris'']" "[''Lyon'']" fresh "''Paris''" "''Lyon''"]
  by (simp add: get_gmaps_client_def fixture_env_def fresh_def)

text \<open>
  C5 (as amended). When the upstream call succeeds with no result (an empty list, or any
  other false value), \<^verbatim>\<open>maps_geocode\<close> and \<^verbatim>\<open>maps_reverse_geocode\<close> raise a \<^verbatim>\<open>ValueError\<close>
  whose message is the tool's prefix followed by the no-results text: the error raised inside
  the \<^verbatim>\<open>try\<close> block is caught by the handler's own \<^verbatim>\<open>except\<close> and wrapped like any upstream
  failure, which becomes the same prefix followed by the original message.
\<close>

theorem no_results_error_is_wrapped:
  "(address \<noteq> [] \<and> get_gmaps_client E w = (Inr c, w1) \<longrightarrow>
      (\<forall>results. respond E c (Geocode address) = Inr results \<and> \<not> truthy results \<longrightarrow>
          fst (maps_geocode E address w) =
            Inl (ValueError ''Geocoding error: No results found for the given address''))
      \<and> (\<forall>e. respond E c (Geocode address) = Inl e \<longrightarrow>
          fst (maps_geocode E address w) = Inl (ValueError (''Geocoding error: '' @ str_exn e))))
   \<and> (in_range (- 90) 90 latitude \<and> in_range (- 180) 180 longitude
        \<and> get_gmaps_client E w = (Inr c, w1) \<longrightarrow>
      (\<forall>results. respond E c (Reverse_geocode (latitude, longitude)) = Inr results
            \<and> \<not> truthy results \<longrightarrow>
          fst (maps_reverse_geocode E (Some latitude) (Some longitude) w) =
            Inl (ValueError ''Reverse geocoding error: No results found for the given coordinates''))
      \<and> (\<forall>e. respond E c (Reverse_geocode (latitude, longitude)) = Inl e \<longrightarrow>
          fst (maps_reverse_geocode E (Some latitude) (Some longitude) w) =
            Inl (ValueError (''Reverse geocoding error: '' @ str_exn e))))"
  by (auto simp: maps_geocode_def maps_reverse_geocode_def py_le_in_range try_except_def
        invoke_def geocode_result_def reverse_geocode_result_def)

theorem no_results_error_is_wrapped_witness:
  "fst (maps_geocode fixture_env ''nowhere'' fresh) =
     Inl (ValueError ''Geocoding error: No results found for the given address'')
   \<and> fst (maps_geocode
        (fixture_env\<lparr>respond := (\<lambda>c call. Inl (OtherError ''ApiError'' ''OVER_QUERY_LIMIT''))\<rparr>)
        ''nowhere'' fresh) =
     Inl (ValueError ''Geocoding error: OVER_QUERY_LIMIT'')
   \<and> fst (maps_reverse_geocode fixture_env (Some (PInt 10)) (Some (PInt 20)) fresh) =
     Inl (ValueError ''Reverse geocoding error: No results found for the given coordinates'')
   \<and> fst (maps_reverse_geocode
        (fixture_env\<lparr>respond := (\<lambda>c call. Inl (OtherError ''ApiError'' ''OVER_QUERY_LIMIT''))\<rparr>)
        (Some (PInt 10)) (Some (PInt 20)) fresh) =
     Inl (ValueError ''Reverse geocoding error: OVER_QUERY_LIMIT'')"
  using no_results_error_is_wrapped [of "''nowhere''" fixture_env fresh "Client ''key''"
          "\<lparr>gmaps = Some (Client ''key''), trace = [Constructed ''key'']\<rparr>" "PInt 10" "PInt 20"]
        no_results_error_is_wrapped [of "''nowhere''"
          "fixture_env\<lparr>respond := (\<lambda>c call. Inl (OtherError ''ApiError'' ''OVER_QUERY_LIMIT''))\<rparr>"
          fresh "Client ''key''"
          "\<lparr>gmaps = Some (Client ''key''), trace = [Constructed ''key'']\<rparr>" "PInt 10" "PInt 20"]
  by (simp add: in_range_def get_gmaps_client_def fixture_env_def fresh_def)

text \<open>
  C5 as stated fails: the failure for zero results is not of a kind of its own. An upstream
  that succeeds with an empty list and an upstream that fails with the no-results text as its
  message give the same exception, of the same class and with the same prefix.
\<close>

theorem no_results_not_distinct_counterexample:
  "fst (maps_geocode fixture_env ''nowhere'' fresh) =
     Inl (ValueError ''Geocoding error: No results found for the given address'')
   \<and> fst (maps_geocode
        (fixture_env\<lparr>respond :=
           (\<lambda>c call. Inl (OtherError ''ApiError'' ''No results found for the given address''))\<rparr>)
        ''nowhere'' fresh) =
     Inl (ValueError ''Geocoding error: No results found for the given address'')"
  by (simp add: maps_geocode_def get_gmaps_client_def fixture_env_def fresh_def try_except_def
        invoke_def geocode_result_def)

text \<open>
  C6. The claim asks for a rejection whenever a location is given without both fields. The
  handler tests \<^verbatim>\<open>if location:\<close>, which is false for an empty dictionary: a location that is
  given and holds neither field is not rejected, and the upstream places call is made.
\<close>

theorem search_places_empty_location_accepted:
  "maps_search_places
      (fixture_env\<lparr>respond := (\<lambda>c call. Inr (JDict [(''results'', JList [])]))\<rparr>)
      ''pizza'' (Some []) None fresh =
     (Inr (JDict [(''places'', JList [])]),
      \<lparr>gmaps = Some (Client ''key''),
       trace = [Constructed ''key'', Called (Client ''key'') (Places ''pizza'' [])]\<rparr>)"
  by (simp add: maps_search_places_def search_params_def get_gmaps_client_def fixture_env_def
        fresh_def try_except_def invoke_def places_result_def and_then_def)

text \<open>
  What the handler does for a location that is not empty: the query is tested first, then
  the radius, both before the client is asked for; a missing field is then reported from
  inside the \<^verbatim>\<open>try\<close> block, with the tool's prefix, and no places call is logged.
\<close>

lemma search_places_validation_order:
  "(query = [] \<longrightarrow>
      maps_search_places E query location radius w =
        (Inl (ValueError ''query parameter is required''), w))
   \<and> (query \<noteq> [] \<and> radius = Some r \<and> (r \<le> 0 \<or> 50000 < r) \<longrightarrow>
      maps_search_places E query location radius w =
        (Inl (ValueError ''radius must be between 1 and 50000 meters''), w))
   \<and> (query \<noteq> [] \<and> (radius = None \<or> (\<exists>r. radius = Some r \<and> 0 < r \<and> r \<le> 50000))
        \<and> location = Some loc \<and> loc \<noteq> []
        \<and> (map_of loc ''latitude'' = None \<or> map_of loc ''longitude'' = None)
        \<and> get_gmaps_client E w = (Inr c, w1) \<longrightarrow>
      maps_search_places E query location radius w =
        (Inl (ValueError ''Places search error: location must contain both latitude and longitude''), w1))"
  by (auto simp: maps_search_places_def search_params_def try_except_def split: option.splits)

lemma get_gmaps_client_cached:
  "gmaps w = Some c \<Longrightarrow> get_gmaps_client E w = (Inr c, w)"
  by (simp add: get_gmaps_client_def)

lemma get_gmaps_client_times_cached:
  "gmaps w = Some c \<Longrightarrow> get_gmaps_client_times n E w = (replicate n (Inr c), w)"
  by (induction n) (simp_all add: get_gmaps_client_cached)

text \<open>
  C8. With no client cached and the key absent (unset or empty), \<^verbatim>\<open>get_gmaps_client\<close> raises
  the configuration \<^verbatim>\<open>ValueError\<close> and leaves the state as it was. With a key and a
  constructor that succeeds, any number of successive invocations all return the one handle
  built by the first: the constructor runs once, and the handle stays in the global.
\<close>

theorem client_constructed_once:
  "(gmaps w = None \<and> (GOOGLE_MAPS_API_KEY E = None \<or> GOOGLE_MAPS_API_KEY E = Some []) \<longrightarrow>
      get_gmaps_client E w =
        (Inl (ValueError ''GOOGLE_MAPS_API_KEY environment variable is not set''), w))
   \<and> (gmaps w = None \<and> GOOGLE_MAPS_API_KEY E = Some key \<and> key \<noteq> []
        \<and> Client_init E key = Inr c \<longrightarrow>
      get_gmaps_client_times (Suc n) E w =
        (replicate (Suc n) (Inr c),
         w\<lparr>gmaps := Some c, trace := trace w @ [Constructed key]\<rparr>))
   \<and> (gmaps w = Some c \<longrightarrow> get_gmaps_client E w = (Inr c, w))"
proof (intro conjI impI)
  assume "gmaps w = None \<and> (GOOGLE_MAPS_API_KEY E = None \<or> GOOGLE_MAPS_API_KEY E = Some [])"
  then show "get_gmaps_client E w =
        (Inl (ValueError ''GOOGLE_MAPS_API_KEY environment variable is not set''), w)"
    by (auto simp: get_gmaps_client_def)
next
  assume a: "gmaps w = None \<and> GOOGLE_MAPS_API_KEY E = Some key \<and> key \<noteq> []
        \<and> Client_init E key = Inr c"
  let ?w1 = "w\<lparr>gmaps := Some c, trace := trace w @ [Constructed key]\<rparr>"
  from a have first: "get_gmaps_client E w = (Inr c, ?w1)"
    by (simp add: get_gmaps_client_def)
  have "gmaps ?w1 = Some c" by simp
  then have rest: "get_gmaps_client_times n E ?w1 = (replicate n (Inr c), ?w1)"
    by (rule get_gmaps_client_times_cached)
  show "get_gmaps_client_times (Suc n) E w = (replicate (Suc n) (Inr c), ?w1)"
    by (simp add: first rest)
next
  assume "gmaps w = Some c"
  then show "get_gmaps_client E w = (Inr c, w)"
    by (rule get_gmaps_client_cached)
qed

theorem client_constructed_once_witness:
  "get_gmaps_client (fixture_env\<lparr>GOOGLE_MAPS_API_KEY := None\<rparr>) fresh =
     (Inl (ValueError ''GOOGLE_MAPS_API_KEY environment variable is not set''), fresh)
   \<and> get_gmaps_client_times (Suc 2) fixture_env fresh =
     ([Inr (Client ''key''), Inr (Client ''key''), Inr (Client ''key'')],
      \<lparr>gmaps = Some (Client ''key''), trace = [Constructed ''key'']\<rparr>)"
  using client_constructed_once [of fresh "fixture_env\<lparr>GOOGLE_MAPS_API_KEY := None\<rparr>"]
        client_constructed_once [of fresh fixture_env "''key''" "Client ''key''" 2]
  by (simp add: fixture_env_def fresh_def numeral_3_eq_3 numeral_2_eq_2)

lemma append_each_all:
  "\<forall>x\<in>set xs. f x = Inr (g x) \<Longrightarrow> append_each f xs acc = Inr (acc @ map g xs)"
  by (induction xs arbitrary: acc) simp_all

lemma append_each_first_failure:
  "\<forall>x\<in>set pre. f x = Inr (g x) \<Longrightarrow> f x = Inl e \<Longrightarrow>
     append_each f (pre @ x # post) acc = Inl e"
  by (induction pre arbitrary: acc) simp_all

lemma append_each_some_failure:
  "x \<in> set xs \<Longrightarrow> f x = Inl e \<Longrightarrow> \<exists>e'. append_each f xs acc = Inl e'"
proof (induction xs arbitrary: acc)
  case Nil
  then show ?case by simp
next
  case (Cons y ys)
  show ?case
  proof (cases "f y")
    case (Inl e1)
    then show ?thesis by simp
  next
    case (Inr v)
    with Cons.prems have "x \<in> set ys" by auto
    from Cons.IH [OF this Cons.prems(2)] Inr show ?thesis by simp
  qed
qed

lemma py_get_field: "py_get (JDict d) k dflt = Inr (field d k dflt)"
  by (simp add: field_def split: option.splits)

lemma step_entry_dict: "is_dict step \<Longrightarrow> step_entry step = Inr (projected_step step)"
  by (cases step) (simp_all add: step_entry_def and_then_def py_get_field del: py_get.simps)

lemma route_entry_well_formed:
  assumes "well_formed_route route"
  shows "route_entry route = Inr (projected_route route)"
proof -
  from assms obtain r where route: "route = JDict r"
    by (cases route) (simp_all add: well_formed_route_def)
  from assms route obtain leg rest where legs: "map_of r ''legs'' = Some (JList (JDict leg # rest))"
    by (auto simp: well_formed_route_def split: option.splits json.splits list.splits)
  from assms route legs obtain ss where ss: "leg_steps leg = Some ss" "list_all is_dict ss"
    by (auto simp: well_formed_route_def split: option.splits)
  from ss(2) have steps: "append_each step_entry ss [] = Inr (map projected_step ss)"
    using append_each_all [of ss step_entry projected_step "[]"]
    by (simp add: list_all_iff step_entry_dict)
  from legs have get_legs: "field r ''legs'' (JList [JDict []]) = JList (JDict leg # rest)"
    by (simp add: field_def)
  from ss(1) have get_steps: "field leg ''steps'' (JList []) = JList ss"
    by (auto simp: leg_steps_def field_def split: option.splits json.splits)
  from legs have leg: "first_leg (JDict r) = Some leg"
    by simp
  have "route_entry (JDict r) =
      Inr (JDict [(''summary'', field r ''summary'' (JStr [])),
                  (''distance'', field leg ''distance'' JNull),
                  (''duration'', field leg ''duration'' JNull),
                  (''steps'', JList (map projected_step ss))])"
    by (simp add: route_entry_def and_then_def py_get_field get_legs get_steps steps
          del: py_get.simps)
  then show ?thesis
    by (simp add: route projected_route_def leg ss(1) del: first_leg.simps)
qed

lemma route_entry_empty_legs:
  "map_of r ''legs'' = Some (JList []) \<Longrightarrow>
     route_entry (JDict r) = Inl (IndexError ''list index out of range'')"
  by (simp add: route_entry_def and_then_def)

lemma route_entry_no_legs:
  "map_of r ''legs'' = None \<Longrightarrow>
     route_entry (JDict r) =
       Inr (JDict [(''summary'', field r ''summary'' (JStr [])),
                   (''distance'', JNull),
                   (''duration'', JNull),
                   (''steps'', JList [])])"
  by (simp add: route_entry_def and_then_def field_def split: option.splits)

lemma maps_directions_response:
  assumes "origin \<noteq> []" "destination \<noteq> []" "mode_or_default mode \<in> set valid_modes"
    and "get_gmaps_client E w = (Inr c, w1)"
    and "respond E c (Directions origin destination (mode_or_default mode) ''imperial'') = Inr result"
  shows "fst (maps_directions E origin destination mode w) =
           (case directions_result result of
              Inl e \<Rightarrow> Inl (ValueError (''Directions error: '' @ str_exn e))
            | Inr v \<Rightarrow> Inr v)"
  using assms
  by (simp add: maps_directions_def Let_def try_except_def invoke_def split: sum.splits)

text \<open>
  C7. For a directions response that is a list of routes, each with a first leg and steps
  that are objects, the handler returns one entry per route, in order: the route's summary
  with the distance, the duration and the steps of the first leg only, each step reduced to
  its instructions (the upstream \<^verbatim>\<open>html_instructions\<close>, unchanged), distance, duration and
  travel mode. The legs after the first do not enter the result.
\<close>

theorem directions_first_leg_projection:
  assumes "\<forall>route\<in>set routes. well_formed_route route"
  shows "directions_result (JList routes) =
           Inr (JDict [(''routes'', JList (map projected_route routes))])
         \<and> (origin \<noteq> [] \<and> destination \<noteq> [] \<and> mode_or_default mode \<in> set valid_modes
              \<and> get_gmaps_client E w = (Inr c, w1)
              \<and> respond E c (Directions origin destination (mode_or_default mode) ''imperial'') =
                  Inr (JList routes) \<longrightarrow>
            fst (maps_directions E origin destination mode w) =
              Inr (JDict [(''routes'', JList (map projected_route routes))]))
         \<and> (\<forall>r leg rest.
              projected_route (JDict ((''legs'', JList (JDict leg # rest)) # r)) =
              projected_route (JDict ((''legs'', JList [JDict leg]) # r)))"
proof -
  from assms have "append_each route_entry routes [] = Inr (map projected_route routes)"
    using append_each_all [of routes route_entry projected_route "[]"]
    by (simp add: route_entry_well_formed)
  then have one: "directions_result (JList routes) =
           Inr (JDict [(''routes'', JList (map projected_route routes))])"
    by (simp add: directions_result_def and_then_def)
  have two: "fst (maps_directions E origin destination mode w) =
              Inr (JDict [(''routes'', JList (map projected_route routes))])"
    if "origin \<noteq> [] \<and> destination \<noteq> [] \<and> mode_or_default mode \<in> set valid_modes
              \<and> get_gmaps_client E w = (Inr c, w1)
              \<and> respond E c (Directions origin destination (mode_or_default mode) ''imperial'') =
                  Inr (JList routes)"
    using that maps_directions_response [of origin destination mode E w c w1 "JList routes"]
    by (simp add: one)
  have three: "\<forall>r leg rest.
              projected_route (JDict ((''legs'', JList (JDict leg # rest)) # r)) =
              projected_route (JDict ((''legs'', JList [JDict leg]) # r))"
    by (simp add: projected_route_def field_def)
  from one two three show ?thesis by blast
qed

theorem directions_first_leg_projection_witness:
  "fst (maps_directions
        (fixture_env\<lparr>respond := (\<lambda>c call. Inr (JList [two_leg_route]))\<rparr>)
        ''Paris'' ''Lyon'' None fresh) =
     Inr (JDict [(''routes'', JList
       [JDict [(''summary'', JStr ''A1''),
               (''distance'', JStr ''10 mi''),
               (''duration'', JStr ''20 mins''),
               (''steps'', JList
                  [JDict [(''instructions'', JStr ''<b>Head</b> north''),
                          (''distance'', JStr ''1 mi''),
                          (''duration'', JNull),
                          (''travel_mode'', JStr ''DRIVING'')]])]])])"
  using directions_first_leg_projection [of "[two_leg_route]" "''Paris''" "''Lyon''" None
          "fixture_env\<lparr>respond := (\<lambda>c call. Inr (JList [two_leg_route]))\<rparr>" fresh
          "Client ''key''" "\<lparr>gmaps = Some (Client ''key''), trace = [Constructed ''key'']\<rparr>"]
  by (simp add: well_formed_route_def two_leg_route_def leg_steps_def projected_route_def
        field_def mode_or_default_def valid_modes_def get_gmaps_client_def fixture_env_def
        fresh_def)

text \<open>
  C10. In \<^verbatim>\<open>maps_directions\<close>, a route whose \<^verbatim>\<open>legs\<close> key holds an empty list makes the whole
  call fail with a directions error, whatever the other routes are: indexing the first leg
  raises \<^verbatim>\<open>IndexError\<close>, and when the routes before it project, the message is the prefix
  followed by the text of that error. A route with no \<^verbatim>\<open>legs\<close> key takes the default of one
  empty leg: the call succeeds, and among the entries of the other routes the handler
  returns for it an entry with the route's summary, null distance and duration and no steps.
\<close>

theorem directions_empty_legs:
  "(origin \<noteq> [] \<and> destination \<noteq> [] \<and> mode_or_default mode \<in> set valid_modes
      \<and> get_gmaps_client E w = (Inr c, w1)
      \<and> respond E c (Directions origin destination (mode_or_default mode) ''imperial'') =
           Inr (JList routes) \<longrightarrow>
        (map_of r ''legs'' = Some (JList []) \<and> JDict r \<in> set routes \<longrightarrow>
           (\<exists>m. fst (maps_directions E origin destination mode w) =
              Inl (ValueError (''Directions error: '' @ m))))
        \<and> (map_of r ''legs'' = Some (JList []) \<and> routes = pre @ JDict r # post
             \<and> (\<forall>x\<in>set pre. \<exists>y. route_entry x = Inr y) \<longrightarrow>
             fst (maps_directions E origin destination mode w) =
               Inl (ValueError ''Directions error: list index out of range''))
        \<and> (map_of r ''legs'' = None \<and> routes = pre @ JDict r # post
             \<and> (\<forall>x\<in>set pre \<union> set post. well_formed_route x) \<longrightarrow>
             fst (maps_directions E origin destination mode w) =
               Inr (JDict [(''routes'', JList
                 (map projected_route pre
                  @ [JDict [(''summary'', field r ''summary'' (JStr [])),
                            (''distance'', JNull),
                            (''duration'', JNull),
                            (''steps'', JList [])]]
                  @ map projected_route post))])))
   \<and> (map_of r ''legs'' = Some (JList []) \<longrightarrow>
        route_entry (JDict r) = Inl (IndexError ''list index out of range''))
   \<and> (map_of r ''legs'' = None \<longrightarrow>
        route_entry (JDict r) =
          Inr (JDict [(''summary'', field r ''summary'' (JStr [])),
                      (''distance'', JNull),
                      (''duration'', JNull),
                      (''steps'', JList [])]))"
proof (intro conjI impI)
  assume a: "origin \<noteq> [] \<and> destination \<noteq> [] \<and> mode_or_default mode \<in> set valid_modes
      \<and> get_gmaps_client E w = (Inr c, w1)
      \<and> respond E c (Directions origin destination (mode_or_default mode) ''imperial'') =
           Inr (JList routes)"
  then have handler: "fst (maps_directions E origin destination mode w) =
           (case directions_result (JList routes) of
              Inl e \<Rightarrow> Inl (ValueError (''Directions error: '' @ str_exn e))
            | Inr v \<Rightarrow> Inr v)"
    by (simp add: maps_directions_response)
  {
    assume b: "map_of r ''legs'' = Some (JList []) \<and> JDict r \<in> set routes"
    then have fails: "route_entry (JDict r) = Inl (IndexError ''list index out of range'')"
      by (simp add: route_entry_empty_legs)
    from b have "JDict r \<in> set routes" by simp
    from append_each_some_failure [of "JDict r" routes route_entry _ "[]", OF this fails]
    obtain e' where "append_each route_entry routes [] = Inl e'"
      by blast
    then have "directions_result (JList routes) = Inl e'"
      by (simp add: directions_result_def and_then_def)
    with handler show "\<exists>m. fst (maps_directions E origin destination mode w) =
              Inl (ValueError (''Directions error: '' @ m))"
      by simp
  }
  {
    assume b: "map_of r ''legs'' = Some (JList []) \<and> routes = pre @ JDict r # post
             \<and> (\<forall>x\<in>set pre. \<exists>y. route_entry x = Inr y)"
    then have fails: "route_entry (JDict r) = Inl (IndexError ''list index out of range'')"
      by (simp add: route_entry_empty_legs)
    from b have "\<forall>x\<in>set pre. route_entry x = Inr (projr (route_entry x))"
      by auto
    from append_each_first_failure
      [of pre route_entry "\<lambda>x. projr (route_entry x)" "JDict r" _ post "[]", OF this fails]
    have "append_each route_entry (pre @ JDict r # post) [] =
        Inl (IndexError ''list index out of range'')" .
    with b have "directions_result (JList routes) = Inl (IndexError ''list index out of range'')"
      by (simp add: directions_result_def and_then_def)
    with handler show "fst (maps_directions E origin destination mode w) =
               Inl (ValueError ''Directions error: list index out of range'')"
      by simp
  }
  {
    assume b: "map_of r ''legs'' = None \<and> routes = pre @ JDict r # post
             \<and> (\<forall>x\<in>set pre \<union> set post. well_formed_route x)"
    let ?entry = "JDict [(''summary'', field r ''summary'' (JStr [])),
                            (''distance'', JNull),
                            (''duration'', JNull),
                            (''steps'', JList [])]"
    let ?g = "\<lambda>x. if x = JDict r then ?entry else projected_route x"
    from b have this_one: "route_entry (JDict r) = Inr ?entry"
      by (simp add: route_entry_no_legs)
    from b have not_wf: "\<not> well_formed_route (JDict r)"
      by (simp add: well_formed_route_def)
    have "\<forall>x\<in>set routes. route_entry x = Inr (?g x)"
      using b this_one by (auto simp: route_entry_well_formed)
    then have "append_each route_entry routes [] = Inr (map ?g routes)"
      using append_each_all [of routes route_entry ?g "[]"] by simp
    moreover have "map ?g pre = map projected_route pre" "map ?g post = map projected_route post"
      using b not_wf by (auto intro!: map_cong)
    ultimately have "append_each route_entry routes [] =
        Inr (map projected_route pre @ [?entry] @ map projected_route post)"
      using b by simp
    then have "directions_result (JList routes) =
        Inr (JDict [(''routes'', JList (map projected_route pre @ [?entry] @ map projected_route post))])"
      by (simp add: directions_result_def and_then_def)
    with handler show "fst (maps_directions E origin destination mode w) =
               Inr (JDict [(''routes'', JList
                 (map projected_route pre @ [?entry] @ map projected_route post))])"
      by simp
  }
next
  assume "map_of r ''legs'' = Some (JList [])"
  then show "route_entry (JDict r) = Inl (IndexError ''list index out of range'')"
    by (rule route_entry_empty_legs)
next
  assume "map_of r ''legs'' = None"
  then show "route_entry (JDict r) =
          Inr (JDict [(''summary'', field r ''summary'' (JStr [])),
                      (''distance'', JNull),
                      (''duration'', JNull),
                      (''steps'', JList [])])"
    by (rule route_entry_no_legs)
qed

theorem directions_empty_legs_witness:
  "fst (maps_directions
        (fixture_env\<lparr>respond := (\<lambda>c call. Inr (JList
           [two_leg_route, JDict [(''summary'', JStr ''B''), (''legs'', JList [])]]))\<rparr>)
        ''Paris'' ''Lyon'' None fresh) =
     Inl (ValueError ''Directions error: list index out of range'')
   \<and> fst (maps_directions
        (fixture_env\<lparr>respond := (\<lambda>c call. Inr (JList
           [two_leg_route, JDict [(''summary'', JStr ''B'')]]))\<rparr>)
        ''Paris'' ''Lyon'' None fresh) =
     Inr (JDict [(''routes'', JList
       [JDict [(''summary'', JStr ''A1''),
               (''distance'', JStr ''10 mi''),
               (''duration'', JStr ''20 mins''),
               (''steps'', JList
                  [JDict [(''instructions'', JStr ''<b>Head</b> north''),
                          (''distance'', JStr ''1 mi''),
                          (''duration'', JNull),
                          (''travel_mode'', JStr ''DRIVING'')]])],
        JDict [(''summary'', JStr ''B''),
               (''distance'', JNull),
               (''duration'', JNull),
               (''steps'', JList [])]])])"
  using directions_empty_legs [of "''Paris''" "''Lyon''" None
          "fixture_env\<lparr>respond := (\<lambda>c call. Inr (JList
             [two_leg_route, JDict [(''summary'', JStr ''B''), (''legs'', JList [])]]))\<rparr>" fresh
          "Client ''key''" "\<lparr>gmaps = Some (Client ''key''), trace = [Constructed ''key'']\<rparr>"
          "[two_leg_route, JDict [(''summary'', JStr ''B''), (''legs'', JList [])]]"
          "[(''summary'', JStr ''B''), (''legs'', JList [])]" "[two_leg_route]" "[]"]
        directions_empty_legs [of "''Paris''" "''Lyon''" None
          "fixture_env\<lparr>respond := (\<lambda>c call. Inr (JList
             [two_leg_route, JDict [(''summary'', JStr ''B'')]]))\<rparr>" fresh
          "Client ''key''" "\<lparr>gmaps = Some (Client ''key''), trace = [Constructed ''key'']\<rparr>"
          "[two_leg_route, JDict [(''summary'', JStr ''B'')]]"
          "[(''summary'', JStr ''B'')]" "[two_leg_route]" "[]"]
        route_entry_well_formed [of two_leg_route]
  by (simp add: well_formed_route_def two_leg_route_def leg_steps_def projected_route_def
        field_def mode_or_default_def valid_modes_def get_gmaps_client_def fixture_env_def
        fresh_def)

lemma get_gmaps_client_same_global:
  "gmaps w' = gmaps w \<Longrightarrow> fst (get_gmaps_client E w') = fst (get_gmaps_client E w)"
  by (simp add: get_gmaps_client_def split: option.splits sum.splits)

lemma get_gmaps_client_after:
  "gmaps w' = gmaps (snd (get_gmaps_client E w)) \<Longrightarrow>
     fst (get_gmaps_client E w') = fst (get_gmaps_client E w)"
  by (auto simp: get_gmaps_client_def split: option.splits sum.splits if_splits)

lemma try_except_fst:
  "fst (try_except p r) =
     (case fst r of Inl e \<Rightarrow> Inl (ValueError (p @ str_exn e)) | Inr v \<Rightarrow> Inr v)"
  by (cases r) (simp add: try_except_def split: sum.splits)

lemma try_except_snd: "snd (try_except p r) = snd r"
  by (cases r) (simp add: try_except_def split: sum.splits)

text \<open>The part of a handler inside its \<^verbatim>\<open>try\<close> block, up to the projection.\<close>

lemma request_fst:
  "fst (case get_gmaps_client E w of
          (Inl e, w1) \<Rightarrow> (Inl e, w1)
        | (Inr c, w1) \<Rightarrow>
            (case invoke E c call w1 of
               (Inl e, w2) \<Rightarrow> (Inl e, w2)
             | (Inr v, w2) \<Rightarrow> (proj v, w2))) =
     (case fst (get_gmaps_client E w) of
        Inl e \<Rightarrow> Inl e
      | Inr c \<Rightarrow> (case respond E c call of Inl e \<Rightarrow> Inl e | Inr v \<Rightarrow> proj v))"
  by (cases "get_gmaps_client E w") (auto simp: invoke_def split: sum.splits)

lemma request_gmaps:
  "gmaps (snd (case get_gmaps_client E w of
          (Inl e, w1) \<Rightarrow> (Inl e, w1)
        | (Inr c, w1) \<Rightarrow>
            (case invoke E c call w1 of
               (Inl e, w2) \<Rightarrow> (Inl e, w2)
             | (Inr v, w2) \<Rightarrow> (proj v, w2)))) =
     gmaps (snd (get_gmaps_client E w))"
  by (cases "get_gmaps_client E w") (auto simp: invoke_def split: sum.splits)

lemma search_fst:
  "fst (case get_gmaps_client E w of
          (Inl e, w1) \<Rightarrow> (Inl e, w1)
        | (Inr c, w1) \<Rightarrow>
            (case sp of
               Inl e \<Rightarrow> (Inl e, w1)
             | Inr params \<Rightarrow>
                 (case invoke E c (Places q params) w1 of
                    (Inl e, w2) \<Rightarrow> (Inl e, w2)
                  | (Inr v, w2) \<Rightarrow> (proj v, w2)))) =
     (case fst (get_gmaps_client E w) of
        Inl e \<Rightarrow> Inl e
      | Inr c \<Rightarrow>
          (case sp of
             Inl e \<Rightarrow> Inl e
           | Inr params \<Rightarrow>
               (case respond E c (Places q params) of Inl e \<Rightarrow> Inl e | Inr v \<Rightarrow> proj v)))"
  by (cases "get_gmaps_client E w") (auto simp: invoke_def split: sum.splits)

lemma search_gmaps:
  "gmaps (snd (case get_gmaps_client E w of
          (Inl e, w1) \<Rightarrow> (Inl e, w1)
        | (Inr c, w1) \<Rightarrow>
            (case sp of
               Inl e \<Rightarrow> (Inl e, w1)
             | Inr params \<Rightarrow>
                 (case invoke E c (Places q params) w1 of
                    (Inl e, w2) \<Rightarrow> (Inl e, w2)
                  | (Inr v, w2) \<Rightarrow> (proj v, w2))))) =
     gmaps (snd (get_gmaps_client E w))"
  by (cases "get_gmaps_client E w") (auto simp: invoke_def split: sum.splits)

lemmas handler_defs =
  maps_geocode_def maps_reverse_geocode_def maps_search_places_def maps_place_details_def
  maps_distance_matrix_def maps_elevation_def maps_directions_def

lemma run_tool_fst_cong:
  "fst (get_gmaps_client E w') = fst (get_gmaps_client E w) \<Longrightarrow>
     fst (run_tool E call w') = fst (run_tool E call w)"
  by (cases call)
     (simp_all add: handler_defs Let_def try_except_fst request_fst search_fst
        split: sum.splits option.splits)

lemma run_tool_gmaps:
  "gmaps (snd (run_tool E call w)) = gmaps w
   \<or> gmaps (snd (run_tool E call w)) = gmaps (snd (get_gmaps_client E w))"
  by (cases call)
     (simp_all add: handler_defs Let_def try_except_snd request_gmaps search_gmaps
        split: sum.splits option.splits)

lemma run_tool_client_after:
  "fst (get_gmaps_client E (snd (run_tool E call w))) = fst (get_gmaps_client E w)"
  using run_tool_gmaps [of E call w] get_gmaps_client_same_global get_gmaps_client_after
  by blast

lemma run_tool_times_same:
  "fst (get_gmaps_client E w') = fst (get_gmaps_client E w) \<Longrightarrow>
     fst (run_tool_times n E call w') = replicate n (fst (run_tool E call w))"
proof (induction n arbitrary: w')
  case 0
  then show ?case by simp
next
  case (Suc n)
  have head: "fst (run_tool E call w') = fst (run_tool E call w)"
    using Suc.prems by (rule run_tool_fst_cong)
  have "fst (get_gmaps_client E (snd (run_tool E call w'))) = fst (get_gmaps_client E w)"
    using Suc.prems by (simp add: run_tool_client_after)
  from Suc.IH [OF this] head show ?case
    by (auto split: prod.splits)
qed

text \<open>
  C9. With the environment fixed (the key, the constructor and the upstream's answer to each
  call), a handler's result is a function of its arguments alone: the same call made any
  number of times in a row, from any process state, returns the same result every time,
  whether the client was cached before the first call or is built by it.
\<close>

theorem repeated_calls_same_output:
  "fst (run_tool_times n E call w) = replicate n (fst (run_tool E call w))
   \<and> fst (run_tool E call (snd (run_tool E call w))) = fst (run_tool E call w)"
  using run_tool_times_same [of E w w n call] run_tool_fst_cong [OF run_tool_client_after]
  by simp

theorem repeated_calls_same_output_witness:
  "fst (run_tool_times 3
          (fixture_env\<lparr>respond := (\<lambda>c call. Inr (JList [two_leg_route]))\<rparr>)
          (Call_directions ''Paris'' ''Lyon'' None) fresh) =
     replicate 3 (fst (run_tool
          (fixture_env\<lparr>respond := (\<lambda>c call. Inr (JList [two_leg_route]))\<rparr>)
          (Call_directions ''Paris'' ''Lyon'' None) fresh))"
  using repeated_calls_same_output [of 3
          "fixture_env\<lparr>respond := (\<lambda>c call. Inr (JList [two_leg_route]))\<rparr>"
          "Call_directions ''Paris'' ''Lyon'' None" fresh]
  by simp

end
